theory Spec2Isabelle
  imports Complex_Main
begin

section \<open>Python values, exceptions and effects\<close>

text \<open>
  The two source files are callers of the \<open>pink\<close> library: the demonstration script
  \<open>examples/barriers/arm_ur5.py\<close> and the unit tests \<open>tests/test_barrier.py\<close>.
  The development embeds the script. Python floats are idealised as real numbers and
  \<open>np.sin\<close> as the real sine; vectors are lists of reals.
\<close>

type_synonym vec = "real list"
type_synonym matrix = "real list list"

datatype exc_type = ModuleNotFoundError | ImportError | IndexError | AttributeError
  | OtherError string

text \<open>An exception object: its class, its message and its \<open>__cause__\<close> (set by
  \<open>raise ... from exc\<close>).\<close>

datatype py_exception =
  PyException (exc_class: exc_type) (exc_message: string) (exc_cause: "py_exception option")

text \<open>
  A statement of the script runs against the log of the calls made so far to the external
  collaborators (visualizer, solver, console, rate limiter). It either returns a value or
  raises, and in both cases the log it has written so far remains.
\<close>

type_synonym ('ev, 'a) prog = "'ev list \<Rightarrow> (py_exception + 'a) \<times> 'ev list"

definition ret :: "'a \<Rightarrow> ('ev, 'a) prog" where
  "ret x tr = (Inr x, tr)"

text \<open>The result of a library call that does not touch the log.\<close>

definition call :: "py_exception + 'a \<Rightarrow> ('ev, 'a) prog" where
  "call r tr = (r, tr)"

text \<open>Sequencing: an exception of the first statement skips the rest.\<close>

definition seq :: "('ev, 'a) prog \<Rightarrow> ('a \<Rightarrow> ('ev, 'b) prog) \<Rightarrow> ('ev, 'b) prog" where
  "seq m f tr = (case m tr of (Inl e, tr') \<Rightarrow> (Inl e, tr') | (Inr x, tr') \<Rightarrow> f x tr')"

section \<open>The objects the script builds\<close>

text \<open>A rigid transform: the script only writes components of its translation.\<close>

record se3 =
  rotation :: matrix
  translation :: "real \<times> real \<times> real"

text \<open>\<open>T.translation[1] = v\<close> and \<open>T.translation[2] = v\<close> on the three-vector.\<close>

definition set_translation_1 :: "real \<Rightarrow> se3 \<Rightarrow> se3" where
  "set_translation_1 v T =
     (case translation T of (x, y, z) \<Rightarrow> T\<lparr>translation := (x, v, z)\<rparr>)"

definition set_translation_2 :: "real \<Rightarrow> se3 \<Rightarrow> se3" where
  "set_translation_2 v T =
     (case translation T of (x, y, z) \<Rightarrow> T\<lparr>translation := (x, y, v)\<rparr>)"

definition translation_1 :: "se3 \<Rightarrow> real" where
  "translation_1 T = (case translation T of (x, y, z) \<Rightarrow> y)"

definition translation_2 :: "se3 \<Rightarrow> real" where
  "translation_2 T = (case translation T of (x, y, z) \<Rightarrow> z)"

definition translation_0 :: "se3 \<Rightarrow> real" where
  "translation_0 T = (case translation T of (x, y, z) \<Rightarrow> x)"

record ('m, 'd) robot_wrapper =
  model :: 'm
  data :: 'd

text \<open>\<open>FrameTask(frame, position_cost=, orientation_cost=, lm_damping=)\<close>; the target is
  unset until \<open>set_target_from_configuration\<close>.\<close>

record frame_task =
  ft_frame :: string
  ft_position_cost :: real
  ft_orientation_cost :: real
  ft_lm_damping :: real
  transform_target_to_world :: "se3 option"

definition FrameTask :: "string \<Rightarrow> real \<Rightarrow> real \<Rightarrow> real \<Rightarrow> frame_task" where
  "FrameTask frame position_cost orientation_cost lm_damping =
     \<lparr>ft_frame = frame, ft_position_cost = position_cost,
      ft_orientation_cost = orientation_cost, ft_lm_damping = lm_damping,
      transform_target_to_world = None\<rparr>"

record posture_task =
  pt_cost :: real
  target_q :: "vec option"

definition PostureTask :: "real \<Rightarrow> posture_task" where
  "PostureTask cost = \<lparr>pt_cost = cost, target_q = None\<rparr>"

text \<open>\<open>PositionBarrier(frame, indices=, max=, gain=, r=)\<close> as the script calls it.\<close>

record position_barrier =
  pb_frame :: string
  pb_indices :: "nat list"
  pb_max :: vec
  pb_gain :: vec
  pb_r :: real

definition PositionBarrier :: "string \<Rightarrow> nat list \<Rightarrow> vec \<Rightarrow> vec \<Rightarrow> real \<Rightarrow> position_barrier" where
  "PositionBarrier frame indices mx gain r =
     \<lparr>pb_frame = frame, pb_indices = indices, pb_max = mx, pb_gain = gain, pb_r = r\<rparr>"

text \<open>\<open>ConfigurationBarrier(model, gain=, r=)\<close>.\<close>

record 'm configuration_barrier =
  cb_model :: 'm
  cb_gain :: real
  cb_r :: real

definition ConfigurationBarrier :: "'m \<Rightarrow> real \<Rightarrow> real \<Rightarrow> 'm configuration_barrier" where
  "ConfigurationBarrier m gain r = \<lparr>cb_model = m, cb_gain = gain, cb_r = r\<rparr>"

text \<open>The elements of the lists \<open>tasks\<close> and \<open>cbf_list\<close>.\<close>

datatype task = FrameT frame_task | PostureT posture_task

datatype 'm barrier = PositionB position_barrier | ConfigurationB "'m configuration_barrier"

section \<open>External collaborators\<close>

text \<open>The calls the script makes that are visible from outside, in the order made.\<close>

datatype ('m, 'c) event =
    StartMeshcatVisualizer
  | VizDisplay vec
  | MeshcatFrame string real
  | SetTransform string se3
  | SolveIK 'c "task list" real string "'m barrier list" bool
  | IntegrateInplace 'c vec real
  | Print string
  | RateSleep

text \<open>
  The library functions the script calls. Their code is not part of the two source files,
  so each is a parameter: a function of its arguments that returns a value or raises.
  \<open>'m\<close> is the kinematic model, \<open>'d\<close> its data, \<open>'c\<close> a \<open>pink.Configuration\<close>.
\<close>

record ('m, 'd, 'c) library =
  new_Configuration :: "'m \<Rightarrow> 'd \<Rightarrow> vec \<Rightarrow> py_exception + 'c"
  configuration_q :: "'c \<Rightarrow> vec"
  get_transform_frame_to_world :: "'c \<Rightarrow> string \<Rightarrow> py_exception + se3"
  frame_set_target_from_configuration :: "frame_task \<Rightarrow> 'c \<Rightarrow> py_exception + frame_task"
  posture_set_target_from_configuration ::
    "posture_task \<Rightarrow> 'c \<Rightarrow> py_exception + posture_task"
  available_solvers :: "string list"
  rate_period :: "real \<Rightarrow> real"
  solve_ik ::
    "'c \<Rightarrow> task list \<Rightarrow> real \<Rightarrow> string \<Rightarrow> 'm barrier list \<Rightarrow> bool \<Rightarrow> py_exception + vec"
  integrate_inplace :: "'c \<Rightarrow> vec \<Rightarrow> real \<Rightarrow> py_exception + 'c"
  compute_qp_inequality :: "position_barrier \<Rightarrow> 'c \<Rightarrow> real \<Rightarrow> py_exception + matrix \<times> vec"
  compute_error :: "frame_task \<Rightarrow> 'c \<Rightarrow> py_exception + vec"
  position_compute_barrier :: "position_barrier \<Rightarrow> 'c \<Rightarrow> py_exception + vec"
  configuration_compute_barrier ::
    "'m configuration_barrier \<Rightarrow> 'c \<Rightarrow> py_exception + vec"
  str_vec :: "vec \<Rightarrow> string"
  str_float :: "real \<Rightarrow> string"
  format_0_3f :: "real \<Rightarrow> string"
  effect_raises :: "('m, 'c) event \<Rightarrow> py_exception option"

text \<open>A call made for its effect only (visualizer, console, rate limiter): it is logged,
  and it may raise.\<close>

definition effect :: "('m, 'd, 'c) library \<Rightarrow> ('m, 'c) event \<Rightarrow> (('m, 'c) event, unit) prog" where
  "effect lib ev tr =
     (case effect_raises lib ev of None \<Rightarrow> (Inr (), tr @ [ev]) | Some e \<Rightarrow> (Inl e, tr @ [ev]))"

text \<open>A call made for its result that is logged as well (solver, integration).\<close>

definition logged :: "'ev \<Rightarrow> py_exception + 'a \<Rightarrow> ('ev, 'a) prog" where
  "logged ev r tr = (r, tr @ [ev])"

section \<open>Import guard (lines 20--25)\<close>

definition install_hint :: string where
  "install_hint = ''Examples need robot_descriptions, '' @ ''try ``pip install robot_descriptions``''"

text \<open>
  \<open>try: from robot_descriptions.loaders.pinocchio import load_robot_description\<close>
  \<open>except ModuleNotFoundError as exc: raise ModuleNotFoundError(hint) from exc\<close>.
  The argument is the outcome of the import statement: the imported function or the
  exception the import raised.
\<close>

definition import_guard :: "py_exception + 'f \<Rightarrow> py_exception + 'f" where
  "import_guard imported =
     (case imported of
        Inr load_robot_description \<Rightarrow> Inr load_robot_description
      | Inl exc \<Rightarrow>
          if exc_class exc = ModuleNotFoundError
          then Inl (PyException ModuleNotFoundError install_hint (Some exc))
          else Inl exc)"

section \<open>Set-up of the demo (lines 29--81)\<close>

text \<open>\<open>solver = available_solvers[0]\<close>, then \<open>if "osqp" in available_solvers: solver = "osqp"\<close>.
  Indexing an empty list raises \<open>IndexError\<close>.\<close>

definition select_solver :: "string list \<Rightarrow> py_exception + string" where
  "select_solver solvers =
     (case solvers of
        [] \<Rightarrow> Inl (PyException IndexError ''list index out of range'' None)
      | first # _ \<Rightarrow> Inr (if ''osqp'' \<in> set solvers then ''osqp'' else first))"

definition q_ref :: vec where
  "q_ref = [1.27153374, -0.87988708, 1.89104795, 1.73996951, -0.24610945, -0.74979019]"

text \<open>The variables of the script that the control loop reads or writes.\<close>

record ('m, 'c) vars =
  end_effector_task :: frame_task
  posture_task :: posture_task
  pos_cbf :: position_barrier
  configuration_cbf :: "'m configuration_barrier"
  configuration :: 'c
  solver :: string
  dt :: real
  t :: real

text \<open>The lists \<open>tasks\<close> and \<open>cbf_list\<close> hold references to the objects, so they show the
  objects as they currently are.\<close>

definition tasks :: "('m, 'c) vars \<Rightarrow> task list" where
  "tasks v = [FrameT (end_effector_task v), PostureT (posture_task v)]"

definition cbf_list :: "('m, 'c) vars \<Rightarrow> 'm barrier list" where
  "cbf_list v = [PositionB (pos_cbf v), ConfigurationB (configuration_cbf v)]"

definition demo_setup ::
  "('m, 'd, 'c) library \<Rightarrow> (string \<Rightarrow> unit option \<Rightarrow> py_exception + ('m, 'd) robot_wrapper) \<Rightarrow>
     (('m, 'c) event, ('m, 'c) vars) prog" where
  "demo_setup lib load_robot_description =
     seq (call (load_robot_description ''ur5_description'' None)) (\<lambda>robot.
     seq (effect lib StartMeshcatVisualizer) (\<lambda>_.
     seq (call (new_Configuration lib (model robot) (data robot) q_ref)) (\<lambda>conf.
     seq (call (frame_set_target_from_configuration lib
                  (FrameTask ''ee_link'' 50 1 100) conf)) (\<lambda>ee_task.
     seq (call (posture_set_target_from_configuration lib (PostureTask 0.001) conf)) (\<lambda>p_task.
     seq (effect lib (VizDisplay (configuration_q lib conf))) (\<lambda>_.
     seq (effect lib (MeshcatFrame ''end_effector_target'' 1)) (\<lambda>_.
     seq (call (select_solver (available_solvers lib))) (\<lambda>slv.
     ret \<lparr>end_effector_task = ee_task,
          posture_task = p_task,
          pos_cbf = PositionBarrier ''ee_link'' [1] [0.6] [100] 1,
          configuration_cbf = ConfigurationBarrier (model robot) 1 100,
          configuration = conf,
          solver = slv,
          dt = rate_period lib 200,
          t = 0\<rparr>))))))))"

section \<open>One iteration of the control loop (lines 83--114)\<close>

text \<open>\<open>compute_barrier(configuration)[0]\<close>: index 0 of an empty array raises.\<close>

definition first_entry :: "vec \<Rightarrow> py_exception + real" where
  "first_entry xs =
     (case xs of
        [] \<Rightarrow> Inl (PyException IndexError ''index 0 is out of bounds'' None)
      | x # _ \<Rightarrow> Inr x)"

text \<open>Lines 84--86: \<open>end_effector_target\<close> is the target object of the end-effector task
  itself, and two components of its translation are overwritten in place. The result is
  the target after the two assignments.\<close>

definition update_target :: "real \<Rightarrow> frame_task \<Rightarrow> py_exception + se3" where
  "update_target time ee_task =
     (case transform_target_to_world ee_task of
        None \<Rightarrow> Inl (PyException AttributeError
                      ''NoneType object has no attribute translation'' None)
      | Some end_effector_target \<Rightarrow>
          Inr (set_translation_2 0.2
                 (set_translation_1 (0 + 0.7 * sin (time / 2)) end_effector_target)))"

definition loop_body ::
  "('m, 'd, 'c) library \<Rightarrow> ('m, 'c) vars \<Rightarrow> (('m, 'c) event, ('m, 'c) vars) prog" where
  "loop_body lib v =
     seq (call (update_target (t v) (end_effector_task v))) (\<lambda>end_effector_target.
     seq (ret (v\<lparr>end_effector_task :=
                  (end_effector_task v)\<lparr>transform_target_to_world :=
                     Some end_effector_target\<rparr>\<rparr>)) (\<lambda>v1.
     seq (effect lib (SetTransform ''end_effector_target'' end_effector_target)) (\<lambda>_.
     seq (call (get_transform_frame_to_world lib (configuration v1)
                  (ft_frame (end_effector_task v1)))) (\<lambda>T.
     seq (effect lib (SetTransform ''end_effector'' T)) (\<lambda>_.
     seq (logged (SolveIK (configuration v1) (tasks v1) (dt v1) (solver v1) (cbf_list v1) False)
            (solve_ik lib (configuration v1) (tasks v1) (dt v1) (solver v1) (cbf_list v1) False))
       (\<lambda>velocity.
     seq (logged (IntegrateInplace (configuration v1) velocity (dt v1))
            (integrate_inplace lib (configuration v1) velocity (dt v1))) (\<lambda>conf.
     seq (ret (v1\<lparr>configuration := conf\<rparr>)) (\<lambda>v2.
     seq (call (compute_qp_inequality lib (pos_cbf v2) (configuration v2) (dt v2))) (\<lambda>Gh.
     seq (call (compute_error lib (end_effector_task v2) (configuration v2))) (\<lambda>err.
     seq (effect lib (Print (''Task error: '' @ str_vec lib err))) (\<lambda>_.
     seq (call (position_compute_barrier lib (pos_cbf v2) (configuration v2))) (\<lambda>hp.
     seq (call (first_entry hp)) (\<lambda>hp0.
     seq (effect lib (Print (''Position CBF value: '' @ format_0_3f lib hp0 @ '' >= 0'')))
       (\<lambda>_.
     seq (call (configuration_compute_barrier lib (configuration_cbf v2) (configuration v2)))
       (\<lambda>hc.
     seq (effect lib (Print (''Configuration CBF value: '' @ str_vec lib hc @ '' >= 0'')))
       (\<lambda>_.
     seq (call (get_transform_frame_to_world lib (configuration v2) ''ee_link'')) (\<lambda>Tee.
     seq (effect lib (Print (''Distance to manipulator: '' @ str_float lib (translation_1 Tee)
                               @ '' <= 0.6''))) (\<lambda>_.
     seq (effect lib (Print (replicate 60 CHR ''-''))) (\<lambda>_.
     seq (effect lib (VizDisplay (configuration_q lib (configuration v2)))) (\<lambda>_.
     seq (effect lib RateSleep) (\<lambda>_.
     ret (v2\<lparr>t := t v2 + dt v2\<rparr>))))))))))))))))))))))"

section \<open>The loop and the script\<close>

text \<open>The first \<open>n\<close> iterations of \<open>while True\<close>, stopping at the first exception.\<close>

fun iterations ::
  "('m, 'd, 'c) library \<Rightarrow> nat \<Rightarrow> ('m, 'c) vars \<Rightarrow> (('m, 'c) event, ('m, 'c) vars) prog" where
  "iterations lib 0 v = ret v"
| "iterations lib (Suc n) v = seq (loop_body lib v) (iterations lib n)"

text \<open>
  \<open>while True:\<close> with no \<open>break\<close> and no \<open>return\<close>: the only way out is an exception
  that leaves the body. The result is that exception with the log at that moment;
  \<open>None\<close> means that the loop does not return.
\<close>

partial_function (option) control_loop ::
  "('m, 'd, 'c) library \<Rightarrow> ('m, 'c) vars \<Rightarrow> ('m, 'c) event list \<Rightarrow>
     (py_exception \<times> ('m, 'c) event list) option" where
  "control_loop lib v tr =
     (case loop_body lib v tr of
        (Inl e, tr') \<Rightarrow> Some (e, tr')
      | (Inr v', tr') \<Rightarrow> control_loop lib v' tr')"

text \<open>The module up to the loop: the guarded import, then the set-up.\<close>

definition script_start ::
  "('m, 'd, 'c) library \<Rightarrow>
     py_exception + (string \<Rightarrow> unit option \<Rightarrow> py_exception + ('m, 'd) robot_wrapper) \<Rightarrow>
     (('m, 'c) event, ('m, 'c) vars) prog" where
  "script_start lib imported = seq (call (import_guard imported)) (demo_setup lib)"

text \<open>The script cut off after \<open>n\<close> iterations of the loop.\<close>

definition script_upto ::
  "('m, 'd, 'c) library \<Rightarrow>
     py_exception + (string \<Rightarrow> unit option \<Rightarrow> py_exception + ('m, 'd) robot_wrapper) \<Rightarrow>
     nat \<Rightarrow> (('m, 'c) event, ('m, 'c) vars) prog" where
  "script_upto lib imported n = seq (script_start lib imported) (iterations lib n)"

text \<open>The whole script, started with an empty log.\<close>

definition script ::
  "('m, 'd, 'c) library \<Rightarrow>
     py_exception + (string \<Rightarrow> unit option \<Rightarrow> py_exception + ('m, 'd) robot_wrapper) \<Rightarrow>
     (py_exception \<times> ('m, 'c) event list) option" where
  "script lib imported =
     (case script_start lib imported [] of
        (Inl e, tr) \<Rightarrow> Some (e, tr)
      | (Inr v, tr) \<Rightarrow> control_loop lib v tr)"

section \<open>Reading the log\<close>

text \<open>The \<open>solver\<close> argument of a logged \<open>solve_ik\<close> call, and its \<open>cbfs\<close> and
  \<open>use_position_limit\<close> arguments.\<close>

fun solver_argument :: "('m, 'c) event \<Rightarrow> string option" where
  "solver_argument (SolveIK c ts d s bs u) = Some s"
| "solver_argument _ = None"

fun limit_arguments :: "('m, 'c) event \<Rightarrow> ('m barrier list \<times> bool) option" where
  "limit_arguments (SolveIK c ts d s bs u) = Some (bs, u)"
| "limit_arguments _ = None"

definition solve_ik_solvers :: "('m, 'c) event list \<Rightarrow> string list" where
  "solve_ik_solvers tr = List.map_filter solver_argument tr"

definition solve_ik_limits :: "('m, 'c) event list \<Rightarrow> ('m barrier list \<times> bool) list" where
  "solve_ik_limits tr = List.map_filter limit_arguments tr"

text \<open>Every entry that a statement adds to the log satisfies \<open>P\<close>, whatever the outcome.\<close>

definition logs :: "('ev \<Rightarrow> bool) \<Rightarrow> ('ev, 'a) prog \<Rightarrow> bool" where
  "logs P m = (\<forall>tr. \<exists>evs. snd (m tr) = tr @ evs \<and> list_all P evs)"

text \<open>What a \<open>solve_ik\<close> call logged by the iteration that starts with the variables \<open>v\<close>
  looks like.\<close>

definition expected_call :: "('m, 'c) vars \<Rightarrow> ('m, 'c) event \<Rightarrow> bool" where
  "expected_call v ev =
     (case ev of
        SolveIK c ts d s bs u \<Rightarrow>
          c = configuration v \<and>
          (case update_target (t v) (end_effector_task v) of
             Inl _ \<Rightarrow> False
           | Inr target \<Rightarrow>
               ts = [FrameT ((end_effector_task v)\<lparr>transform_target_to_world := Some target\<rparr>),
                     PostureT (posture_task v)]) \<and>
          d = dt v \<and> s = solver v \<and> bs = cbf_list v \<and> \<not> u
      | _ \<Rightarrow> True)"

definition fixed_arguments :: "string \<Rightarrow> 'm barrier list \<Rightarrow> ('m, 'c) event \<Rightarrow> bool" where
  "fixed_arguments s bs ev =
     (case ev of SolveIK c ts d s' bs' u \<Rightarrow> s' = s \<and> bs' = bs \<and> \<not> u | _ \<Rightarrow> True)"

section \<open>Renaming the exceptions of the library\<close>

text \<open>
  A script without handlers cannot tell which exceptions its collaborators raise: if every
  exception they raise is replaced by another one, the script raises the replaced one at
  the same place. The replacement must leave alone the exceptions that the statements of
  the script raise themselves (an index out of range, an attribute of \<open>None\<close>).
\<close>

definition map_raised :: "(py_exception \<Rightarrow> py_exception) \<Rightarrow> py_exception + 'a \<Rightarrow> py_exception + 'a" where
  "map_raised f r = (case r of Inl e \<Rightarrow> Inl (f e) | Inr x \<Rightarrow> Inr x)"

definition map_prog :: "(py_exception \<Rightarrow> py_exception) \<Rightarrow> ('ev, 'a) prog \<Rightarrow> ('ev, 'a) prog" where
  "map_prog f m tr = (case m tr of (r, tr') \<Rightarrow> (map_raised f r, tr'))"

definition map_exceptions ::
  "(py_exception \<Rightarrow> py_exception) \<Rightarrow> ('m, 'd, 'c) library \<Rightarrow> ('m, 'd, 'c) library" where
  "map_exceptions f lib = lib
     \<lparr>new_Configuration := (\<lambda>m d q. map_raised f (new_Configuration lib m d q)),
      get_transform_frame_to_world := (\<lambda>c fr. map_raised f (get_transform_frame_to_world lib c fr)),
      frame_set_target_from_configuration :=
        (\<lambda>ft c. map_raised f (frame_set_target_from_configuration lib ft c)),
      posture_set_target_from_configuration :=
        (\<lambda>pt c. map_raised f (posture_set_target_from_configuration lib pt c)),
      solve_ik := (\<lambda>c ts d s bs u. map_raised f (solve_ik lib c ts d s bs u)),
      integrate_inplace := (\<lambda>c w d. map_raised f (integrate_inplace lib c w d)),
      compute_qp_inequality := (\<lambda>b c d. map_raised f (compute_qp_inequality lib b c d)),
      compute_error := (\<lambda>ft c. map_raised f (compute_error lib ft c)),
      position_compute_barrier := (\<lambda>b c. map_raised f (position_compute_barrier lib b c)),
      configuration_compute_barrier :=
        (\<lambda>b c. map_raised f (configuration_compute_barrier lib b c)),
      effect_raises := (\<lambda>ev. map_option f (effect_raises lib ev))\<rparr>"

definition fixes_runtime_errors :: "(py_exception \<Rightarrow> py_exception) \<Rightarrow> bool" where
  "fixes_runtime_errors f =
     (\<forall>msg. f (PyException IndexError msg None) = PyException IndexError msg None \<and>
            f (PyException AttributeError msg None) = PyException AttributeError msg None)"

section \<open>A concrete library\<close>

text \<open>
  A library in which every call returns: the model is its name, a configuration is its
  joint vector, the solver returns the zero velocity, integration is Euler's step, and
  every transform is the identity placement at the origin.
\<close>

definition origin :: se3 where
  "origin = \<lparr>rotation = [], translation = (0, 0, 0)\<rparr>"

definition quiet_library :: "(string, unit, vec) library" where
  "quiet_library =
     \<lparr>new_Configuration = (\<lambda>m d q. Inr q),
      configuration_q = (\<lambda>c. c),
      get_transform_frame_to_world = (\<lambda>c fr. Inr origin),
      frame_set_target_from_configuration =
        (\<lambda>ft c. Inr (ft\<lparr>transform_target_to_world := Some origin\<rparr>)),
      posture_set_target_from_configuration = (\<lambda>pt c. Inr (pt\<lparr>target_q := Some c\<rparr>)),
      available_solvers = [''quadprog'', ''osqp''],
      rate_period = (\<lambda>frequency. 1 / frequency),
      solve_ik = (\<lambda>c ts d s bs u. Inr (map (\<lambda>_. 0) c)),
      integrate_inplace = (\<lambda>c w d. Inr (map2 (\<lambda>q x. q + x * d) c w)),
      compute_qp_inequality = (\<lambda>b c d. Inr ([], [])),
      compute_error = (\<lambda>ft c. Inr []),
      position_compute_barrier = (\<lambda>b c. Inr [0.6]),
      configuration_compute_barrier = (\<lambda>b c. Inr []),
      str_vec = (\<lambda>x. ''[]''),
      str_float = (\<lambda>x. ''0.0''),
      format_0_3f = (\<lambda>x. ''0.600''),
      effect_raises = (\<lambda>ev. None)\<rparr>"

definition quiet_loader :: "string \<Rightarrow> unit option \<Rightarrow> py_exception + (string, unit) robot_wrapper" where
  "quiet_loader name root_joint = Inr \<lparr>model = name, data = ()\<rparr>"

text \<open>The variables with which that library enters the loop, and after one iteration.\<close>

definition quiet_vars :: "(string, vec) vars" where
  "quiet_vars =
     \<lparr>end_effector_task = (FrameTask ''ee_link'' 50 1 100)\<lparr>transform_target_to_world := Some origin\<rparr>,
      posture_task = (PostureTask 0.001)\<lparr>target_q := Some q_ref\<rparr>,
      pos_cbf = PositionBarrier ''ee_link'' [1] [0.6] [100] 1,
      configuration_cbf = ConfigurationBarrier ''ur5_description'' 1 100,
      configuration = q_ref,
      solver = ''osqp'',
      dt = 1 / 200,
      t = 0\<rparr>"

definition quiet_target :: se3 where
  "quiet_target = \<lparr>rotation = [], translation = (0, 0, 0.2)\<rparr>"

definition quiet_vars_1 :: "(string, vec) vars" where
  "quiet_vars_1 = quiet_vars
     \<lparr>end_effector_task := (end_effector_task quiet_vars)\<lparr>transform_target_to_world :=
        Some quiet_target\<rparr>,
      t := 1 / 200\<rparr>"

definition quiet_log_1 :: "(string, vec) event list" where
  "quiet_log_1 =
     [SetTransform ''end_effector_target'' quiet_target,
      SetTransform ''end_effector'' origin,
      SolveIK q_ref (tasks quiet_vars_1) (1 / 200) ''osqp'' (cbf_list quiet_vars) False,
      IntegrateInplace q_ref [0, 0, 0, 0, 0, 0] (1 / 200),
      Print ''Task error: []'',
      Print ''Position CBF value: 0.600 >= 0'',
      Print ''Configuration CBF value: [] >= 0'',
      Print ''Distance to manipulator: 0.0 <= 0.6'',
      Print (replicate 60 CHR ''-''),
      VizDisplay q_ref,
      RateSleep]"

text \<open>The same library with a solver that finds no solution.\<close>

definition no_solution :: py_exception where
  "no_solution = PyException (OtherError ''NoSolutionFound'') ''QP solver found no solution'' None"

definition failing_library :: "(string, unit, vec) library" where
  "failing_library = quiet_library\<lparr>solve_ik := (\<lambda>c ts d s bs u. Inl no_solution)\<rparr>"

text \<open>A replacement of exceptions that only moves \<open>no_solution\<close>.\<close>

definition rename_no_solution :: "py_exception \<Rightarrow> py_exception" where
  "rename_no_solution e =
     (if e = no_solution then PyException (OtherError ''Renamed'') [] None else e)"

text \<open>Two exceptions an import statement can raise.\<close>

definition module_missing :: py_exception where
  "module_missing =
     PyException ModuleNotFoundError ''No module named robot_descriptions'' None"

definition import_broken :: py_exception where
  "import_broken = PyException ImportError ''cannot import name load_robot_description'' None"

section \<open>Sequencing lemmas\<close>

lemma seq_Inr_iff:
  "seq m f tr = (Inr y, tr') \<longleftrightarrow> (\<exists>x tr1. m tr = (Inr x, tr1) \<and> f x tr1 = (Inr y, tr'))"
  by (auto simp: seq_def split: prod.splits sum.splits)

lemma call_Inr_iff: "call r tr = (Inr x, tr') \<longleftrightarrow> r = Inr x \<and> tr' = tr"
  by (auto simp: call_def)

lemma ret_Inr_iff: "ret x tr = (Inr y, tr') \<longleftrightarrow> y = x \<and> tr' = tr"
  by (auto simp: ret_def)

lemma logged_Inr_iff: "logged ev r tr = (Inr x, tr') \<longleftrightarrow> r = Inr x \<and> tr' = tr @ [ev]"
  by (auto simp: logged_def)

lemma effect_Inr_iff:
  "effect lib ev tr = (Inr x, tr') \<longleftrightarrow> effect_raises lib ev = None \<and> tr' = tr @ [ev]"
  by (auto simp: effect_def split: option.splits)

lemma loop_body_completed:
  assumes "loop_body lib v tr = (Inr v', tr')"
  shows "\<exists>target T velocity conf Gh err hp hp0 hc Tee.
      update_target (t v) (end_effector_task v) = Inr target \<and>
      get_transform_frame_to_world lib (configuration v) (ft_frame (end_effector_task v)) = Inr T \<and>
      solve_ik lib (configuration v)
        [FrameT ((end_effector_task v)\<lparr>transform_target_to_world := Some target\<rparr>),
         PostureT (posture_task v)]
        (dt v) (solver v) [PositionB (pos_cbf v), ConfigurationB (configuration_cbf v)] False
        = Inr velocity \<and>
      integrate_inplace lib (configuration v) velocity (dt v) = Inr conf \<and>
      v' = v\<lparr>end_effector_task := (end_effector_task v)\<lparr>transform_target_to_world := Some target\<rparr>,
             configuration := conf, t := t v + dt v\<rparr> \<and>
      compute_qp_inequality lib (pos_cbf v) conf (dt v) = Inr Gh \<and>
      compute_error lib ((end_effector_task v)\<lparr>transform_target_to_world := Some target\<rparr>) conf
        = Inr err \<and>
      position_compute_barrier lib (pos_cbf v) conf = Inr hp \<and>
      first_entry hp = Inr hp0 \<and>
      configuration_compute_barrier lib (configuration_cbf v) conf = Inr hc \<and>
      get_transform_frame_to_world lib conf ''ee_link'' = Inr Tee \<and>
      tr' = tr @
        [SetTransform ''end_effector_target'' target,
         SetTransform ''end_effector'' T,
         SolveIK (configuration v)
           [FrameT ((end_effector_task v)\<lparr>transform_target_to_world := Some target\<rparr>),
            PostureT (posture_task v)]
           (dt v) (solver v) [PositionB (pos_cbf v), ConfigurationB (configuration_cbf v)] False,
         IntegrateInplace (configuration v) velocity (dt v),
         Print (''Task error: '' @ str_vec lib err),
         Print (''Position CBF value: '' @ format_0_3f lib hp0 @ '' >= 0''),
         Print (''Configuration CBF value: '' @ str_vec lib hc @ '' >= 0''),
         Print (''Distance to manipulator: '' @ str_float lib (translation_1 Tee) @ '' <= 0.6''),
         Print (replicate 60 CHR ''-''),
         VizDisplay (configuration_q lib conf),
         RateSleep]"
  using assms
  unfolding loop_body_def seq_Inr_iff call_Inr_iff ret_Inr_iff logged_Inr_iff effect_Inr_iff
    tasks_def cbf_list_def
  by (elim exE conjE) simp

lemma logs_ret: "logs P (ret x)"
  by (simp add: logs_def ret_def)

lemma logs_call: "logs P (call r)"
  by (simp add: logs_def call_def)

lemma logs_logged: "P ev \<Longrightarrow> logs P (logged ev r)"
  by (simp add: logs_def logged_def)

lemma logs_effect: "P ev \<Longrightarrow> logs P (effect lib ev)"
  by (simp add: logs_def effect_def split: option.splits)

lemma logs_seq:
  assumes m: "logs P m" and f: "\<And>x tr tr1. m tr = (Inr x, tr1) \<Longrightarrow> logs P (f x)"
  shows "logs P (seq m f)"
  unfolding logs_def
proof
  fix tr
  obtain r tr1 where mtr: "m tr = (r, tr1)" by (cases "m tr")
  from m have "\<exists>evs. snd (m tr) = tr @ evs \<and> list_all P evs"
    unfolding logs_def by blast
  then obtain evs where evs: "tr1 = tr @ evs" "list_all P evs"
    using mtr by auto
  show "\<exists>evs. snd (seq m f tr) = tr @ evs \<and> list_all P evs"
  proof (cases r)
    case (Inl e)
    then show ?thesis using mtr evs by (simp add: seq_def)
  next
    case (Inr x)
    with mtr have "m tr = (Inr x, tr1)" by simp
    then have "logs P (f x)" by (rule f)
    then have "\<exists>evs'. snd (f x tr1) = tr1 @ evs' \<and> list_all P evs'"
      unfolding logs_def by blast
    then obtain evs' where "snd (f x tr1) = tr1 @ evs'" "list_all P evs'" by blast
    then show ?thesis using mtr Inr evs by (simp add: seq_def)
  qed
qed

lemma loop_body_logs: "logs (expected_call v) (loop_body lib v)"
  unfolding loop_body_def
  by (intro logs_seq logs_ret logs_call logs_logged logs_effect)
     (simp_all add: expected_call_def call_Inr_iff ret_Inr_iff tasks_def cbf_list_def)


lemma logs_weaken: "logs P m \<Longrightarrow> (\<And>ev. P ev \<Longrightarrow> Q ev) \<Longrightarrow> logs Q m"
  unfolding logs_def list_all_iff by blast

lemma expected_call_fixed: "expected_call v ev \<Longrightarrow> fixed_arguments (solver v) (cbf_list v) ev"
  by (cases ev) (simp_all add: expected_call_def fixed_arguments_def)

lemma loop_body_keeps:
  assumes "loop_body lib v tr = (Inr v', tr')"
  shows "solver v' = solver v \<and> cbf_list v' = cbf_list v"
  using loop_body_completed [OF assms] by (elim exE conjE) (simp add: cbf_list_def)

lemma iterations_logs: "logs (fixed_arguments (solver v) (cbf_list v)) (iterations lib n v)"
proof (induction n arbitrary: v)
  case 0
  show ?case by (simp add: logs_ret)
next
  case (Suc n)
  show ?case
    unfolding iterations.simps
  proof (rule logs_seq)
    show "logs (fixed_arguments (solver v) (cbf_list v)) (loop_body lib v)"
      by (rule logs_weaken [OF loop_body_logs]) (rule expected_call_fixed)
  next
    fix x tr tr1
    assume "loop_body lib v tr = (Inr x, tr1)"
    then have "solver x = solver v \<and> cbf_list x = cbf_list v" by (rule loop_body_keeps)
    with Suc.IH [of x]
    show "logs (fixed_arguments (solver v) (cbf_list v)) (iterations lib n x)" by simp
  qed
qed

lemma script_start_completed:
  assumes "script_start lib imported tr = (Inr v, tr')"
  shows "\<exists>load robot conf.
      imported = Inr load \<and> load ''ur5_description'' None = Inr robot \<and>
      new_Configuration lib (model robot) (data robot) q_ref = Inr conf \<and>
      frame_set_target_from_configuration lib (FrameTask ''ee_link'' 50 1 100) conf
        = Inr (end_effector_task v) \<and>
      posture_set_target_from_configuration lib (PostureTask 0.001) conf
        = Inr (posture_task v) \<and>
      select_solver (available_solvers lib) = Inr (solver v) \<and>
      pos_cbf v = PositionBarrier ''ee_link'' [1] [0.6] [100] 1 \<and>
      configuration_cbf v = ConfigurationBarrier (model robot) 1 100 \<and>
      configuration v = conf \<and> dt v = rate_period lib 200 \<and> t v = 0 \<and>
      tr' = tr @ [StartMeshcatVisualizer, VizDisplay (configuration_q lib conf),
                  MeshcatFrame ''end_effector_target'' 1]"
proof -
  from assms obtain load where imp: "import_guard imported = Inr load"
    and st: "demo_setup lib load tr = (Inr v, tr')"
    unfolding script_start_def seq_Inr_iff call_Inr_iff by blast
  from imp have "imported = Inr load"
    by (auto simp: import_guard_def split: sum.splits if_splits)
  moreover from st have "\<exists>robot conf.
      load ''ur5_description'' None = Inr robot \<and>
      new_Configuration lib (model robot) (data robot) q_ref = Inr conf \<and>
      frame_set_target_from_configuration lib (FrameTask ''ee_link'' 50 1 100) conf
        = Inr (end_effector_task v) \<and>
      posture_set_target_from_configuration lib (PostureTask 0.001) conf
        = Inr (posture_task v) \<and>
      select_solver (available_solvers lib) = Inr (solver v) \<and>
      pos_cbf v = PositionBarrier ''ee_link'' [1] [0.6] [100] 1 \<and>
      configuration_cbf v = ConfigurationBarrier (model robot) 1 100 \<and>
      configuration v = conf \<and> dt v = rate_period lib 200 \<and> t v = 0 \<and>
      tr' = tr @ [StartMeshcatVisualizer, VizDisplay (configuration_q lib conf),
                  MeshcatFrame ''end_effector_target'' 1]"
    unfolding demo_setup_def seq_Inr_iff call_Inr_iff ret_Inr_iff effect_Inr_iff
    by (elim exE conjE) simp
  ultimately show ?thesis by blast
qed

lemma script_start_logs: "logs (fixed_arguments s bs) (script_start lib imported)"
  unfolding script_start_def demo_setup_def
  by (intro logs_seq logs_ret logs_call logs_effect) (simp_all add: fixed_arguments_def)

lemma script_upto_logs:
  assumes "select_solver (available_solvers lib) = Inr s"
    and "imported = Inr load" and "load ''ur5_description'' None = Inr robot"
  shows "logs (fixed_arguments s
           [PositionB (PositionBarrier ''ee_link'' [1] [0.6] [100] 1),
            ConfigurationB (ConfigurationBarrier (model robot) 1 100)])
         (script_upto lib imported n)"
  unfolding script_upto_def
proof (rule logs_seq)
  show "logs (fixed_arguments s
           [PositionB (PositionBarrier ''ee_link'' [1] [0.6] [100] 1),
            ConfigurationB (ConfigurationBarrier (model robot) 1 100)])
         (script_start lib imported)"
    by (rule script_start_logs)
next
  fix v tr tr1
  assume "script_start lib imported tr = (Inr v, tr1)"
  from script_start_completed [OF this] assms
  have "solver v = s" and
    "cbf_list v = [PositionB (PositionBarrier ''ee_link'' [1] [0.6] [100] 1),
                   ConfigurationB (ConfigurationBarrier (model robot) 1 100)]"
    by (auto simp: cbf_list_def)
  with iterations_logs [of v lib n]
  show "logs (fixed_arguments s
           [PositionB (PositionBarrier ''ee_link'' [1] [0.6] [100] 1),
            ConfigurationB (ConfigurationBarrier (model robot) 1 100)])
         (iterations lib n v)"
    by simp
qed

lemma script_upto_no_calls:
  assumes "fst (script_start lib imported []) = Inl e"
  shows "script_upto lib imported n [] = script_start lib imported []"
  using assms unfolding script_upto_def seq_def
  by (cases "script_start lib imported []") (auto intro: sym)


lemma seq_assoc: "seq (seq m f) g = seq m (\<lambda>x. seq (f x) g)"
  by (rule ext) (simp add: seq_def split: prod.splits sum.splits)

lemma seq_ret_left: "seq (ret x) f = f x"
  by (rule ext) (simp add: seq_def ret_def)

lemma seq_ret_right: "seq m ret = m"
  by (rule ext) (simp add: seq_def ret_def split: prod.splits sum.splits)

lemma iterations_Suc_end: "iterations lib (Suc n) v = seq (iterations lib n v) (loop_body lib)"
proof (induction n arbitrary: v)
  case 0
  have "iterations lib 0 = ret" by (rule ext) simp
  then show ?case by (simp add: seq_ret_left seq_ret_right)
next
  case (Suc n)
  have step: "iterations lib (Suc n) = (\<lambda>x. seq (iterations lib n x) (loop_body lib))"
    by (rule ext) (rule Suc.IH)
  have "iterations lib (Suc (Suc n)) v = seq (loop_body lib v) (iterations lib (Suc n))"
    by (rule iterations.simps)
  also have "\<dots> = seq (loop_body lib v) (\<lambda>x. seq (iterations lib n x) (loop_body lib))"
    by (simp only: step)
  also have "\<dots> = seq (seq (loop_body lib v) (iterations lib n)) (loop_body lib)"
    by (simp only: seq_assoc)
  also have "\<dots> = seq (iterations lib (Suc n) v) (loop_body lib)"
    by (simp only: iterations.simps)
  finally show ?case .
qed

lemma control_loop_after:
  "iterations lib n v tr = (Inr v', tr') \<Longrightarrow> control_loop lib v tr = control_loop lib v' tr'"
proof (induction n arbitrary: v tr)
  case 0
  then show ?case by (simp add: ret_def)
next
  case (Suc n)
  from Suc.prems obtain x tr1 where
    body: "loop_body lib v tr = (Inr x, tr1)" and rest: "iterations lib n x tr1 = (Inr v', tr')"
    unfolding iterations.simps seq_Inr_iff by blast
  from body have "control_loop lib v tr = control_loop lib x tr1"
    by (subst control_loop.simps) simp
  also from rest have "\<dots> = control_loop lib v' tr'" by (rule Suc.IH)
  finally show ?case .
qed

lemma control_loop_exit:
  fixes lib :: "('m, 'd, 'c) library"
  assumes "control_loop lib v tr = Some y"
  shows "\<exists>n v' tr'. iterations lib n v tr = (Inr v', tr') \<and> loop_body lib v' tr' = (Inl (fst y), snd y)"
proof (rule control_loop.raw_induct [where P = "\<lambda>lib v tr y.
    \<exists>n v' tr'. iterations lib n v tr = (Inr v', tr') \<and> loop_body lib v' tr' = (Inl (fst y), snd y)"
    and lib = lib and v = v and tr = tr and y = y])
  show "control_loop lib v tr = Some y" by (rule assms)
next
  fix loop :: "('m, 'd, 'c) library \<Rightarrow> ('m, 'c) vars \<Rightarrow> ('m, 'c) event list \<Rightarrow>
      (py_exception \<times> ('m, 'c) event list) option"
  fix lib v tr y
  assume IH: "\<And>lib v tr y. loop lib v tr = Some y \<Longrightarrow>
      \<exists>n v' tr'. iterations lib n v tr = (Inr v', tr') \<and> loop_body lib v' tr' = (Inl (fst y), snd y)"
  assume unfolded: "(case loop_body lib v tr of
        (Inl e, tr') \<Rightarrow> Some (e, tr')
      | (Inr v', tr') \<Rightarrow> loop lib v' tr') = Some y"
  obtain r tr1 where body: "loop_body lib v tr = (r, tr1)" by (cases "loop_body lib v tr")
  show "\<exists>n v' tr'. iterations lib n v tr = (Inr v', tr') \<and> loop_body lib v' tr' = (Inl (fst y), snd y)"
  proof (cases r)
    case (Inl e)
    with body unfolded have "y = (e, tr1)" by simp
    with body Inl have "iterations lib 0 v tr = (Inr v, tr) \<and> loop_body lib v tr = (Inl (fst y), snd y)"
      by (simp add: ret_def)
    then show ?thesis by blast
  next
    case (Inr x)
    with body unfolded have "loop lib x tr1 = Some y" by simp
    from IH [OF this] obtain n v' tr' where
      n: "iterations lib n x tr1 = (Inr v', tr')" "loop_body lib v' tr' = (Inl (fst y), snd y)"
      by blast
    from body Inr n(1) have "iterations lib (Suc n) v tr = (Inr v', tr')"
      by (simp add: seq_def)
    with n(2) show ?thesis by blast
  qed
qed



lemma map_prog_seq: "map_prog f (seq m g) = seq (map_prog f m) (\<lambda>x. map_prog f (g x))"
  by (rule ext) (simp add: map_prog_def seq_def map_raised_def split: prod.splits sum.splits)

lemma map_prog_ret: "map_prog f (ret x) = ret x"
  by (rule ext) (simp add: map_prog_def ret_def map_raised_def)

lemma map_prog_call: "map_prog f (call r) = call (map_raised f r)"
  by (rule ext) (simp add: map_prog_def call_def)

lemma map_prog_logged: "map_prog f (logged ev r) = logged ev (map_raised f r)"
  by (rule ext) (simp add: map_prog_def logged_def)

lemma map_prog_effect: "map_prog f (effect lib ev) = effect (map_exceptions f lib) ev"
  by (rule ext)
     (simp add: map_prog_def effect_def map_exceptions_def map_raised_def split: option.splits)

lemma map_raised_update_target:
  "fixes_runtime_errors f \<Longrightarrow> map_raised f (update_target time task) = update_target time task"
  by (simp add: map_raised_def update_target_def fixes_runtime_errors_def split: option.splits)

lemma map_raised_first_entry:
  "fixes_runtime_errors f \<Longrightarrow> map_raised f (first_entry xs) = first_entry xs"
  by (simp add: map_raised_def first_entry_def fixes_runtime_errors_def split: list.splits)

lemma map_raised_select_solver:
  "fixes_runtime_errors f \<Longrightarrow> map_raised f (select_solver xs) = select_solver xs"
  by (simp add: map_raised_def select_solver_def fixes_runtime_errors_def split: list.splits)

lemma loop_body_propagates:
  assumes "fixes_runtime_errors f"
  shows "loop_body (map_exceptions f lib) v = map_prog f (loop_body lib v)"
  unfolding loop_body_def map_prog_seq map_prog_ret map_prog_call map_prog_logged map_prog_effect
    map_raised_update_target [OF assms] map_raised_first_entry [OF assms]
  by (simp add: map_exceptions_def)

lemma demo_setup_propagates:
  assumes "fixes_runtime_errors f"
  shows "demo_setup (map_exceptions f lib) (\<lambda>name root. map_raised f (load name root))
           = map_prog f (demo_setup lib load)"
  unfolding demo_setup_def map_prog_seq map_prog_ret map_prog_call map_prog_logged map_prog_effect
    map_raised_select_solver [OF assms]
  by (simp add: map_exceptions_def)


section \<open>What the calls in the log look like\<close>

lemma fixed_arguments_read:
  "list_all (fixed_arguments s bs) evs \<Longrightarrow>
     set (solve_ik_solvers evs) \<subseteq> {s} \<and> set (solve_ik_limits evs) \<subseteq> {(bs, False)}"
proof (induction evs)
  case Nil
  show ?case by (simp add: solve_ik_solvers_def solve_ik_limits_def)
next
  case (Cons ev evs)
  then show ?case
    by (cases ev)
       (auto simp: solve_ik_solvers_def solve_ik_limits_def fixed_arguments_def)
qed

lemma script_start_no_calls:
  "logs (\<lambda>ev. solver_argument ev = None \<and> limit_arguments ev = None) (script_start lib imported)"
  unfolding script_start_def demo_setup_def
  by (intro logs_seq logs_ret logs_call logs_effect) simp_all

lemma no_calls_read:
  "list_all (\<lambda>ev. solver_argument ev = None \<and> limit_arguments ev = None) evs \<Longrightarrow>
     solve_ik_solvers evs = [] \<and> solve_ik_limits evs = []"
  by (induction evs) (simp_all add: solve_ik_solvers_def solve_ik_limits_def)

lemma script_upto_calls:
  "(\<exists>e. fst (script_start lib imported []) = Inl e \<and>
        solve_ik_solvers (snd (script_upto lib imported n [])) = [] \<and>
        solve_ik_limits (snd (script_upto lib imported n [])) = []) \<or>
   (\<exists>load robot s.
        imported = Inr load \<and> load ''ur5_description'' None = Inr robot \<and>
        select_solver (available_solvers lib) = Inr s \<and>
        set (solve_ik_solvers (snd (script_upto lib imported n []))) \<subseteq> {s} \<and>
        set (solve_ik_limits (snd (script_upto lib imported n []))) \<subseteq>
          {([PositionB (PositionBarrier ''ee_link'' [1] [0.6] [100] 1),
             ConfigurationB (ConfigurationBarrier (model robot) 1 100)], False)})"
proof -
  obtain r tr where st: "script_start lib imported [] = (r, tr)"
    by (cases "script_start lib imported []")
  show ?thesis
  proof (cases r)
    case (Inl e)
    with st have same: "script_upto lib imported n [] = script_start lib imported []"
      by (simp add: script_upto_no_calls)
    have "logs (\<lambda>ev. solver_argument ev = None \<and> limit_arguments ev = None)
            (script_start lib imported)"
      by (rule script_start_no_calls)
    then have "list_all (\<lambda>ev. solver_argument ev = None \<and> limit_arguments ev = None) tr"
      using st unfolding logs_def by (metis append_Nil snd_conv)
    then have "solve_ik_solvers tr = []" "solve_ik_limits tr = []"
      by (simp_all add: no_calls_read)
    with st Inl same show ?thesis by simp
  next
    case (Inr v)
    with st have "script_start lib imported [] = (Inr v, tr)" by simp
    from script_start_completed [OF this] obtain load robot where
      lr: "imported = Inr load" "load ''ur5_description'' None = Inr robot"
        "select_solver (available_solvers lib) = Inr (solver v)"
      by blast
    from script_upto_logs [OF lr(3) lr(1) lr(2), of n]
    obtain evs where "snd (script_upto lib imported n []) = evs"
      "list_all (fixed_arguments (solver v)
         [PositionB (PositionBarrier ''ee_link'' [1] [0.6] [100] 1),
          ConfigurationB (ConfigurationBarrier (model robot) 1 100)]) evs"
      unfolding logs_def by (metis append_Nil)
    with fixed_arguments_read [OF this(2)] lr show ?thesis by auto
  qed
qed

section \<open>Running the concrete library\<close>

lemmas prog_defs = seq_def call_def ret_def logged_def effect_def

lemma quiet_start:
  "script_start quiet_library (Inr quiet_loader) [] =
     (Inr quiet_vars,
      [StartMeshcatVisualizer, VizDisplay q_ref, MeshcatFrame ''end_effector_target'' 1])"
  by (simp add: script_start_def import_guard_def demo_setup_def prog_defs quiet_library_def
      quiet_loader_def quiet_vars_def select_solver_def ConfigurationBarrier_def)

lemma quiet_update_target:
  "update_target (t quiet_vars) (end_effector_task quiet_vars) = Inr quiet_target"
  by (simp add: update_target_def quiet_vars_def FrameTask_def origin_def quiet_target_def
      set_translation_1_def set_translation_2_def)

lemma quiet_iteration_1: "loop_body quiet_library quiet_vars tr = (Inr quiet_vars_1, tr @ quiet_log_1)"
  unfolding loop_body_def quiet_update_target
  by (simp add: prog_defs quiet_library_def quiet_vars_def quiet_vars_1_def quiet_log_1_def first_entry_def
      tasks_def cbf_list_def q_ref_def translation_1_def origin_def)

lemma quiet_body_returns:
  assumes "transform_target_to_world (end_effector_task v) = Some T"
  shows "\<exists>v' tr' T'. loop_body quiet_library v tr = (Inr v', tr') \<and>
           transform_target_to_world (end_effector_task v') = Some T'"
  using assms unfolding loop_body_def
  by (simp add: update_target_def prog_defs quiet_library_def first_entry_def)

lemma quiet_iterations_return:
  assumes "transform_target_to_world (end_effector_task v) = Some T"
  shows "\<exists>v' tr'. iterations quiet_library k v tr = (Inr v', tr')"
  using assms
proof (induction k arbitrary: v tr T)
  case 0
  show ?case by (simp add: ret_def)
next
  case (Suc k)
  from quiet_body_returns [OF Suc.prems, of tr] obtain v1 tr1 T1 where
    b: "loop_body quiet_library v tr = (Inr v1, tr1)"
    and t1: "transform_target_to_world (end_effector_task v1) = Some T1" by blast
  from Suc.IH [OF t1, of tr1] b show ?case by (simp add: seq_def)
qed

lemma quiet_run_1:
  "script_upto quiet_library (Inr quiet_loader) 1 [] =
     (Inr quiet_vars_1,
      [StartMeshcatVisualizer, VizDisplay q_ref, MeshcatFrame ''end_effector_target'' 1]
      @ quiet_log_1)"
  unfolding script_upto_def
  by (simp add: seq_def quiet_start quiet_iteration_1 ret_def)

lemma update_target_returns:
  assumes "update_target time task = Inr T1"
  shows "\<exists>T0. transform_target_to_world task = Some T0 \<and>
           translation_1 T1 = 0.7 * sin (time / 2) \<and> translation_2 T1 = 0.2 \<and>
           translation_0 T1 = translation_0 T0 \<and> rotation T1 = rotation T0"
  using assms
  by (auto simp: update_target_def set_translation_1_def set_translation_2_def
        translation_0_def translation_1_def translation_2_def
        split: option.splits prod.splits)

lemma select_solver_nonempty:
  assumes "solvers \<noteq> []"
  shows "\<exists>s. select_solver solvers = Inr s \<and>
           (s = ''osqp'' \<longleftrightarrow> ''osqp'' \<in> set solvers) \<and>
           (''osqp'' \<notin> set solvers \<longrightarrow> s = hd solvers)"
  using assms by (cases solvers) (auto simp: select_solver_def)

lemma quiet_solvers:
  "solve_ik_solvers (snd (script_upto quiet_library (Inr quiet_loader) 1 [])) = [''osqp'']"
  unfolding quiet_run_1
  by (simp add: quiet_log_1_def solve_ik_solvers_def)

lemma quiet_limits:
  "solve_ik_limits (snd (script_upto quiet_library (Inr quiet_loader) 1 [])) =
     [([PositionB (PositionBarrier ''ee_link'' [1] [0.6] [100] 1),
        ConfigurationB (ConfigurationBarrier ''ur5_description'' 1 100)], False)]"
  unfolding quiet_run_1
  by (simp add: quiet_log_1_def solve_ik_limits_def cbf_list_def quiet_vars_def)

lemma install_hint_text:
  "install_hint = ''Examples need robot_descriptions, try ``pip install robot_descriptions``''"
  by (simp add: install_hint_def)

section \<open>The control loop\<close>

text \<open>
  C8. The control loop never terminates: for every number of completed iterations there is
  a next iteration. After \<open>n\<close> completed iterations the loop goes on as the loop started
  from the variables and the log reached then, and the only way not to run forever is
  that some iteration raises: the loop returns nothing exactly when every number of
  iterations completes.
\<close>

theorem control_loop_never_terminates:
  "(iterations lib n v tr = (Inr v', tr') \<longrightarrow> control_loop lib v tr = control_loop lib v' tr') \<and>
   (control_loop lib v tr = None \<longleftrightarrow> (\<forall>k. \<exists>vk trk. iterations lib k v tr = (Inr vk, trk)))"
proof (intro conjI impI iffI allI)
  assume "iterations lib n v tr = (Inr v', tr')"
  then show "control_loop lib v tr = control_loop lib v' tr'" by (rule control_loop_after)
next
  fix k
  assume none: "control_loop lib v tr = None"
  show "\<exists>vk trk. iterations lib k v tr = (Inr vk, trk)"
  proof (induction k)
    case 0
    show ?case by (simp add: ret_def)
  next
    case (Suc k)
    then obtain vk trk where k: "iterations lib k v tr = (Inr vk, trk)" by blast
    then have "control_loop lib vk trk = None" using control_loop_after none by metis
    then have "\<exists>x tr1. loop_body lib vk trk = (Inr x, tr1)"
      by (subst (asm) control_loop.simps) (auto split: prod.splits sum.splits)
    with k show ?case unfolding iterations_Suc_end by (simp add: seq_def)
  qed
next
  assume all: "\<forall>k. \<exists>vk trk. iterations lib k v tr = (Inr vk, trk)"
  show "control_loop lib v tr = None"
  proof (rule ccontr)
    assume "control_loop lib v tr \<noteq> None"
    then obtain y where "control_loop lib v tr = Some y" by blast
    from control_loop_exit [OF this] obtain n v' tr' where
      "iterations lib n v tr = (Inr v', tr')" "loop_body lib v' tr' = (Inl (fst y), snd y)"
      by blast
    then have "iterations lib (Suc n) v tr = (Inl (fst y), snd y)"
      unfolding iterations_Suc_end by (simp add: seq_def)
    with all show False by (metis Inl_Inr_False fst_conv)
  qed
qed

theorem control_loop_never_terminates_witness:
  "iterations quiet_library 1 quiet_vars [] = (Inr quiet_vars_1, quiet_log_1) \<and>
   control_loop quiet_library quiet_vars [] = control_loop quiet_library quiet_vars_1 quiet_log_1 \<and>
   control_loop quiet_library quiet_vars [] = None"
proof -
  have it: "iterations quiet_library 1 quiet_vars [] = (Inr quiet_vars_1, quiet_log_1)"
    using quiet_iteration_1 [of "[]"] by (simp add: seq_def ret_def)
  have "transform_target_to_world (end_effector_task quiet_vars) = Some origin"
    by (simp add: quiet_vars_def)
  then have all: "\<forall>k. \<exists>vk trk. iterations quiet_library k quiet_vars [] = (Inr vk, trk)"
    using quiet_iterations_return by blast
  from control_loop_never_terminates [of quiet_library 1 quiet_vars "[]" quiet_vars_1 quiet_log_1]
    it all
  show ?thesis by blast
qed

section \<open>One iteration\<close>

text \<open>
  C5. In every iteration a velocity is obtained by calling \<open>solve_ik\<close> with the current
  configuration, the list of the two tasks, \<open>dt\<close> and the list of the two barriers, and
  the configuration is advanced by \<open>integrate_inplace\<close> with exactly that velocity and
  \<open>dt\<close>, before the visualizer is redrawn and the loop sleeps. For an iteration that
  completes, the log of the iteration is exactly this sequence of calls.
\<close>

theorem velocity_solved_then_integrated:
  assumes "loop_body lib v tr = (Inr v', tr')"
  shows "\<exists>velocity target T err hp0 hc Tee.
      length (tasks v') = 2 \<and> length (cbf_list v) = 2 \<and>
      solve_ik lib (configuration v) (tasks v') (dt v) (solver v) (cbf_list v) False
        = Inr velocity \<and>
      integrate_inplace lib (configuration v) velocity (dt v) = Inr (configuration v') \<and>
      tr' = tr @
        [SetTransform ''end_effector_target'' target,
         SetTransform ''end_effector'' T,
         SolveIK (configuration v) (tasks v') (dt v) (solver v) (cbf_list v) False,
         IntegrateInplace (configuration v) velocity (dt v),
         Print (''Task error: '' @ str_vec lib err),
         Print (''Position CBF value: '' @ format_0_3f lib hp0 @ '' >= 0''),
         Print (''Configuration CBF value: '' @ str_vec lib hc @ '' >= 0''),
         Print (''Distance to manipulator: '' @ str_float lib (translation_1 Tee) @ '' <= 0.6''),
         Print (replicate 60 CHR ''-''),
         VizDisplay (configuration_q lib (configuration v')),
         RateSleep]"
  using loop_body_completed [OF assms]
  apply (elim exE conjE)
  subgoal for target T velocity conf Gh err hp hp0 hc Tee
    apply (rule exI [of _ velocity], rule exI [of _ target], rule exI [of _ T])
    apply (rule exI [of _ err], rule exI [of _ hp0], rule exI [of _ hc], rule exI [of _ Tee])
    apply (simp add: tasks_def cbf_list_def)
    done
  done

theorem velocity_solved_then_integrated_witness:
  "loop_body quiet_library quiet_vars [] = (Inr quiet_vars_1, quiet_log_1) \<and>
   solve_ik quiet_library (configuration quiet_vars) (tasks quiet_vars_1) (dt quiet_vars)
     (solver quiet_vars) (cbf_list quiet_vars) False = Inr [0, 0, 0, 0, 0, 0] \<and>
   integrate_inplace quiet_library (configuration quiet_vars) [0, 0, 0, 0, 0, 0] (dt quiet_vars)
     = Inr (configuration quiet_vars_1) \<and>
   drop 2 quiet_log_1 =
     [SolveIK (configuration quiet_vars) (tasks quiet_vars_1) (dt quiet_vars)
        (solver quiet_vars) (cbf_list quiet_vars) False,
      IntegrateInplace (configuration quiet_vars) [0, 0, 0, 0, 0, 0] (dt quiet_vars),
      Print ''Task error: []'',
      Print ''Position CBF value: 0.600 >= 0'',
      Print ''Configuration CBF value: [] >= 0'',
      Print ''Distance to manipulator: 0.0 <= 0.6'',
      Print (replicate 60 CHR ''-''),
      VizDisplay (configuration_q quiet_library (configuration quiet_vars_1)),
      RateSleep]"
proof -
  have h: "loop_body quiet_library quiet_vars [] = (Inr quiet_vars_1, quiet_log_1)"
    using quiet_iteration_1 [of "[]"] by simp
  have c: "solve_ik quiet_library (configuration quiet_vars) (tasks quiet_vars_1) (dt quiet_vars)
       (solver quiet_vars) (cbf_list quiet_vars) False = Inr [0, 0, 0, 0, 0, 0] \<and>
     integrate_inplace quiet_library (configuration quiet_vars) [0, 0, 0, 0, 0, 0] (dt quiet_vars)
       = Inr (configuration quiet_vars_1) \<and>
     drop 2 quiet_log_1 =
       [SolveIK (configuration quiet_vars) (tasks quiet_vars_1) (dt quiet_vars)
          (solver quiet_vars) (cbf_list quiet_vars) False,
        IntegrateInplace (configuration quiet_vars) [0, 0, 0, 0, 0, 0] (dt quiet_vars),
        Print ''Task error: []'',
        Print ''Position CBF value: 0.600 >= 0'',
        Print ''Configuration CBF value: [] >= 0'',
        Print ''Distance to manipulator: 0.0 <= 0.6'',
        Print (replicate 60 CHR ''-''),
        VizDisplay (configuration_q quiet_library (configuration quiet_vars_1)),
        RateSleep]"
    by (simp add: quiet_library_def quiet_vars_def quiet_vars_1_def quiet_log_1_def q_ref_def)
  from velocity_solved_then_integrated [OF h] h c show ?thesis by blast
qed

text \<open>
  C6. In every iteration the target pose is recomputed from the elapsed time \<open>t\<close>: its
  translation component 1 becomes \<open>0.7 * sin (t / 2)\<close> and its component 2 becomes
  \<open>0.2\<close>, the rest of the pose is kept, and this happens before the solver is called:
  the solver is handed the task with the new target.
\<close>

theorem target_follows_sine:
  assumes "loop_body lib v tr = (Inr v', tr')"
  shows "\<exists>T0 T1 T rest.
      transform_target_to_world (end_effector_task v) = Some T0 \<and>
      transform_target_to_world (end_effector_task v') = Some T1 \<and>
      translation_1 T1 = 0.7 * sin (t v / 2) \<and>
      translation_2 T1 = 0.2 \<and>
      translation_0 T1 = translation_0 T0 \<and>
      rotation T1 = rotation T0 \<and>
      t v' = t v + dt v \<and>
      tr' = tr @
        SetTransform ''end_effector_target'' T1 #
        SetTransform ''end_effector'' T #
        SolveIK (configuration v)
          [FrameT ((end_effector_task v)\<lparr>transform_target_to_world := Some T1\<rparr>),
           PostureT (posture_task v)]
          (dt v) (solver v) (cbf_list v) False # rest"
proof -
  from loop_body_completed [OF assms] have "\<exists>target T conf.
      update_target (t v) (end_effector_task v) = Inr target \<and>
      v' = v\<lparr>end_effector_task := (end_effector_task v)\<lparr>transform_target_to_world := Some target\<rparr>,
             configuration := conf, t := t v + dt v\<rparr> \<and>
      (\<exists>rest. tr' = tr @
        SetTransform ''end_effector_target'' target #
        SetTransform ''end_effector'' T #
        SolveIK (configuration v)
          [FrameT ((end_effector_task v)\<lparr>transform_target_to_world := Some target\<rparr>),
           PostureT (posture_task v)]
          (dt v) (solver v) (cbf_list v) False # rest)"
    apply (elim exE conjE)
    subgoal for target T velocity conf Gh err hp hp0 hc Tee
      apply (rule exI [of _ target], rule exI [of _ T], rule exI [of _ conf])
      apply (simp add: cbf_list_def)
      done
    done
  then obtain T1 T conf rest where
    u: "update_target (t v) (end_effector_task v) = Inr T1"
    and v': "v' = v\<lparr>end_effector_task := (end_effector_task v)\<lparr>transform_target_to_world := Some T1\<rparr>,
             configuration := conf, t := t v + dt v\<rparr>"
    and tr': "tr' = tr @
        SetTransform ''end_effector_target'' T1 #
        SetTransform ''end_effector'' T #
        SolveIK (configuration v)
          [FrameT ((end_effector_task v)\<lparr>transform_target_to_world := Some T1\<rparr>),
           PostureT (posture_task v)]
          (dt v) (solver v) (cbf_list v) False # rest"
    by blast
  from update_target_returns [OF u] obtain T0 where
    "transform_target_to_world (end_effector_task v) = Some T0"
    "translation_1 T1 = 0.7 * sin (t v / 2)" "translation_2 T1 = 0.2"
    "translation_0 T1 = translation_0 T0" "rotation T1 = rotation T0"
    by blast
  moreover from v' have "transform_target_to_world (end_effector_task v') = Some T1"
    "t v' = t v + dt v" by simp_all
  ultimately show ?thesis using tr' by blast
qed

theorem target_follows_sine_witness:
  "loop_body quiet_library quiet_vars [] = (Inr quiet_vars_1, quiet_log_1) \<and>
   transform_target_to_world (end_effector_task quiet_vars_1) = Some quiet_target \<and>
   translation_1 quiet_target = 0.7 * sin (t quiet_vars / 2) \<and>
   translation_2 quiet_target = 0.2 \<and>
   take 1 quiet_log_1 = [SetTransform ''end_effector_target'' quiet_target]"
proof -
  have h: "loop_body quiet_library quiet_vars [] = (Inr quiet_vars_1, quiet_log_1)"
    using quiet_iteration_1 [of "[]"] by simp
  have c: "transform_target_to_world (end_effector_task quiet_vars_1) = Some quiet_target \<and>
     translation_1 quiet_target = 0.7 * sin (t quiet_vars / 2) \<and>
     translation_2 quiet_target = 0.2 \<and>
     take 1 quiet_log_1 = [SetTransform ''end_effector_target'' quiet_target]"
    by (simp add: quiet_vars_def quiet_vars_1_def quiet_log_1_def quiet_target_def
        translation_1_def translation_2_def)
  from target_follows_sine [OF h] h c show ?thesis by blast
qed

section \<open>The import guard\<close>

text \<open>
  C7. If the import of the robot-description loader raises \<open>ModuleNotFoundError\<close>, the
  script raises a \<open>ModuleNotFoundError\<close> whose message carries the installation hint
  and whose cause is the original exception, before anything else happens. This is the
  only error handling of the script: any other exception of the import leaves the script
  as it is, and in the set-up and in the loop body an exception raised by a collaborator
  is passed on untouched (replacing the exceptions of the collaborators replaces the
  exception of the script in the same way).
\<close>

theorem import_error_translated:
  fixes lib :: "('m, 'd, 'c) library"
    and load :: "string \<Rightarrow> unit option \<Rightarrow> py_exception + ('m, 'd) robot_wrapper"
  shows
   "(exc_class exc = ModuleNotFoundError \<longrightarrow>
       script lib (Inl exc) = Some (PyException ModuleNotFoundError install_hint (Some exc), [])) \<and>
    (\<exists>pre post. install_hint = pre @ ''pip install robot_descriptions'' @ post) \<and>
    (exc_class exc \<noteq> ModuleNotFoundError \<longrightarrow> script lib (Inl exc) = Some (exc, [])) \<and>
    script_start lib (Inr load) tr = demo_setup lib load tr \<and>
    (fixes_runtime_errors f \<longrightarrow>
       demo_setup (map_exceptions f lib) (\<lambda>name root. map_raised f (load name root))
         = map_prog f (demo_setup lib load) \<and>
       loop_body (map_exceptions f lib) v = map_prog f (loop_body lib v))"
proof -
  have "install_hint = ''Examples need robot_descriptions, try ``'' @
      ''pip install robot_descriptions'' @ ''``''"
    by (simp add: install_hint_def)
  then have "\<exists>pre post. install_hint = pre @ ''pip install robot_descriptions'' @ post"
    by blast
  moreover have "script_start lib (Inr load) tr = demo_setup lib load tr"
    by (simp add: script_start_def import_guard_def seq_def call_def)
  ultimately show ?thesis
    by (simp add: script_def script_start_def import_guard_def seq_def call_def
        demo_setup_propagates loop_body_propagates)
qed

theorem import_error_translated_witness:
  "exc_class module_missing = ModuleNotFoundError \<and>
   script quiet_library (Inl module_missing) =
     Some (PyException ModuleNotFoundError
             ''Examples need robot_descriptions, try ``pip install robot_descriptions``''
             (Some module_missing), []) \<and>
   exc_class import_broken \<noteq> ModuleNotFoundError \<and>
   script quiet_library (Inl import_broken) = Some (import_broken, []) \<and>
   fixes_runtime_errors rename_no_solution \<and>
   fst (loop_body failing_library quiet_vars []) = Inl no_solution \<and>
   fst (loop_body (map_exceptions rename_no_solution failing_library) quiet_vars []) =
     Inl (PyException (OtherError ''Renamed'') [] None)"
proof -
  have h1: "exc_class module_missing = ModuleNotFoundError" by (simp add: module_missing_def)
  have h2: "exc_class import_broken \<noteq> ModuleNotFoundError" by (simp add: import_broken_def)
  have h3: "fixes_runtime_errors rename_no_solution"
    by (simp add: fixes_runtime_errors_def rename_no_solution_def no_solution_def)
  have run: "fst (loop_body failing_library quiet_vars []) = Inl no_solution"
    unfolding loop_body_def quiet_update_target
    by (simp add: prog_defs failing_library_def quiet_library_def)
  have "rename_no_solution no_solution = PyException (OtherError ''Renamed'') [] None"
    by (simp add: rename_no_solution_def)
  with run have renamed:
    "fst (map_prog rename_no_solution (loop_body failing_library quiet_vars) []) =
       Inl (PyException (OtherError ''Renamed'') [] None)"
    by (auto simp: map_prog_def map_raised_def split: prod.splits)
  from import_error_translated [of module_missing quiet_library quiet_loader "[]"
      rename_no_solution quiet_vars] h1
  have a: "script quiet_library (Inl module_missing) =
      Some (PyException ModuleNotFoundError install_hint (Some module_missing), [])"
    by blast
  from import_error_translated [of import_broken quiet_library quiet_loader "[]"
      rename_no_solution quiet_vars] h2
  have b: "script quiet_library (Inl import_broken) = Some (import_broken, [])"
    by blast
  from import_error_translated [of module_missing failing_library quiet_loader "[]"
      rename_no_solution quiet_vars] h3
  have "loop_body (map_exceptions rename_no_solution failing_library) quiet_vars =
      map_prog rename_no_solution (loop_body failing_library quiet_vars)"
    by blast
  with renamed have c:
    "fst (loop_body (map_exceptions rename_no_solution failing_library) quiet_vars []) =
       Inl (PyException (OtherError ''Renamed'') [] None)"
    by simp
  from h1 a [unfolded install_hint_text] h2 b h3 run c show ?thesis
    by (intro conjI)
qed

section \<open>The arguments of every solver call\<close>

text \<open>
  C9. The QP solver is selected once before the loop: it is \<open>osqp\<close> if and only if
  \<open>osqp\<close> is among the available solvers, and otherwise the first available solver;
  every \<open>solve_ik\<close> call of the script, after any number of iterations, is passed
  that solver. (With no solver available the indexing at line 75 raises and no call is
  made.)
\<close>

theorem solver_selected_before_loop:
  assumes "available_solvers lib \<noteq> []"
  shows "\<exists>s. select_solver (available_solvers lib) = Inr s \<and>
           (s = ''osqp'' \<longleftrightarrow> ''osqp'' \<in> set (available_solvers lib)) \<and>
           (''osqp'' \<notin> set (available_solvers lib) \<longrightarrow> s = hd (available_solvers lib)) \<and>
           (\<forall>s' \<in> set (solve_ik_solvers (snd (script_upto lib imported n []))). s' = s)"
proof -
  from select_solver_nonempty [OF assms] obtain s where
    s: "select_solver (available_solvers lib) = Inr s"
       "s = ''osqp'' \<longleftrightarrow> ''osqp'' \<in> set (available_solvers lib)"
       "''osqp'' \<notin> set (available_solvers lib) \<longrightarrow> s = hd (available_solvers lib)"
    by blast
  have "\<forall>s' \<in> set (solve_ik_solvers (snd (script_upto lib imported n []))). s' = s"
    using script_upto_calls [of lib imported n] s(1) by auto
  with s show ?thesis by blast
qed

theorem solver_selected_before_loop_witness:
  "available_solvers quiet_library \<noteq> [] \<and>
   select_solver (available_solvers quiet_library) = Inr ''osqp'' \<and>
   solve_ik_solvers (snd (script_upto quiet_library (Inr quiet_loader) 1 [])) = [''osqp''] \<and>
   select_solver [''quadprog'', ''cvxopt''] = Inr ''quadprog''"
proof -
  have h: "available_solvers quiet_library \<noteq> []" by (simp add: quiet_library_def)
  have c: "select_solver (available_solvers quiet_library) = Inr ''osqp'' \<and>
     select_solver [''quadprog'', ''cvxopt''] = Inr ''quadprog''"
    by (simp add: quiet_library_def select_solver_def)
  from solver_selected_before_loop [OF h, of "Inr quiet_loader" 1] h c quiet_solvers
  show ?thesis by auto
qed

text \<open>
  C10. Every \<open>solve_ik\<close> call of the script is made with \<open>use_position_limit=False\<close>
  and with the constraint list made of the position barrier and the
  \<open>ConfigurationBarrier\<close> built on the model of the loaded robot.
\<close>

theorem position_limit_disabled:
  "\<forall>(bs, u) \<in> set (solve_ik_limits (snd (script_upto lib imported n []))).
     \<not> u \<and>
     (\<exists>load robot. imported = Inr load \<and> load ''ur5_description'' None = Inr robot \<and>
        bs = [PositionB (PositionBarrier ''ee_link'' [1] [0.6] [100] 1),
              ConfigurationB (ConfigurationBarrier (model robot) 1 100)])"
  using script_upto_calls [of lib imported n] by auto

theorem position_limit_disabled_witness:
  "solve_ik_limits (snd (script_upto quiet_library (Inr quiet_loader) 1 [])) =
     [([PositionB (PositionBarrier ''ee_link'' [1] [0.6] [100] 1),
        ConfigurationB (ConfigurationBarrier ''ur5_description'' 1 100)], False)]"
  using position_limit_disabled [of quiet_library "Inr quiet_loader" 1] quiet_limits
  by simp

end
